theory Spec2Isabelle
  imports Complex_Main "HOL-Library.Multiset"
begin

section \<open>Data model of the chunked processor\<close>

text \<open>
  The module \<^verbatim>\<open>engine/agents/utilities/chunked_processor.py\<close> is embedded function by
  function. A Python dictionary with a fixed set of string keys is a record whose fields are
  options: \<open>None\<close> is an absent key, so \<^verbatim>\<open>d.get(k, default)\<close> is a case distinction on the
  field. The values stored under \<^verbatim>\<open>file_path\<close>, \<^verbatim>\<open>file_type\<close> and \<^verbatim>\<open>content\<close> are strings,
  a string being a list of characters; \<^verbatim>\<open>len\<close> is \<open>length\<close>. Python integers are \<open>int\<close>,
  the two delays of the configuration (Python floats) are idealised as \<open>real\<close>.
\<close>

record file_info =
  file_path :: "string option"
  file_type :: "string option"
  content :: "string option"

record ChunkConfig =
  max_files_per_chunk :: int
  max_tokens_per_chunk :: int
  max_parallel_chunks :: int
  rate_limit_delay :: real
  retry_attempts :: int
  retry_delay :: real

definition default_config :: ChunkConfig where
  "default_config =
     \<lparr>max_files_per_chunk = 5, max_tokens_per_chunk = 50000, max_parallel_chunks = 3,
      rate_limit_delay = 2, retry_attempts = 3, retry_delay = 5\<rparr>"

record ProcessingChunk =
  chunk_id :: string
  files :: "file_info list"
  estimated_tokens :: int
  priority :: int

subsection \<open>Helpers of the Python runtime\<close>

text \<open>\<^verbatim>\<open>d.get(k, default)\<close> on a field that may be absent.\<close>

definition get_or :: "'a option \<Rightarrow> 'a \<Rightarrow> 'a" where
  "get_or field dflt = (case field of None \<Rightarrow> dflt | Some v \<Rightarrow> v)"

text \<open>\<^verbatim>\<open>str(n)\<close> for a natural number, as the f-strings \<^verbatim>\<open>f"chunk_{chunk_id}"\<close> print it.\<close>

definition digit_char :: "nat \<Rightarrow> char" where
  "digit_char d = ''0123456789'' ! d"

function str_nat :: "nat \<Rightarrow> string" where
  "str_nat n = (if n < 10 then [digit_char n] else str_nat (n div 10) @ [digit_char (n mod 10)])"
  by pat_completeness auto
termination
  by (relation "measure id") auto

declare str_nat.simps [simp del]

text \<open>\<^verbatim>\<open>s.lower()\<close> on the letters A to Z; every other character is left as it is.\<close>

definition lower_char :: "char \<Rightarrow> char" where
  "lower_char c =
     (let n = (of_char c :: nat)
      in if 65 \<le> n \<and> n \<le> 90 then char_of (n + 32) else c)"

definition lower :: "string \<Rightarrow> string" where
  "lower s = map lower_char s"

text \<open>\<^verbatim>\<open>s.endswith(suffix)\<close> and its form with a tuple of suffixes.\<close>

definition endswith :: "string \<Rightarrow> string \<Rightarrow> bool" where
  "endswith s suffix =
     (length suffix \<le> length s \<and> drop (length s - length suffix) s = suffix)"

definition endswith_any :: "string \<Rightarrow> string list \<Rightarrow> bool" where
  "endswith_any s suffixes = list_ex (endswith s) suffixes"

text \<open>
  \<^verbatim>\<open>sorted(xs, key=k, reverse=True)\<close> and \<^verbatim>\<open>xs.sort(key=k, reverse=True)\<close>: a stable sort
  by descending key, elements of equal key keeping their order.
\<close>

definition sorted_reverse :: "('a \<Rightarrow> int) \<Rightarrow> 'a list \<Rightarrow> 'a list" where
  "sorted_reverse k xs = sort_key (\<lambda>x. - k x) xs"

section \<open>The chunk partitioner\<close>

definition get_file_priority :: "file_info \<Rightarrow> int" where
  "get_file_priority file_info =
     (let path = get_or (file_path file_info) '''';
          ftype = get_or (file_type file_info) ''''
      in if endswith (lower path) ''.html'' \<or> ftype = ''html'' then 100
         else if endswith (lower path) ''.css'' \<or> ftype = ''css'' then 80
         else if endswith_any (lower path) [''.js'', ''.jsx'', ''.ts'', ''.tsx'']
                 \<or> ftype \<in> set [''javascript'', ''typescript''] then 60
         else if endswith_any (lower path) [''.png'', ''.jpg'', ''.jpeg'', ''.gif'', ''.svg'']
              then 40
         else 20)"

definition calculate_chunk_priority :: "file_info list \<Rightarrow> int" where
  "calculate_chunk_priority fs =
     (if fs = [] then 0 else sum_list (map get_file_priority fs) div int (length fs))"

definition estimate_tokens :: "file_info \<Rightarrow> int" where
  "estimate_tokens file_info =
     (let c = get_or (content file_info) ''''
      in if c = [] then 1000 else int (length c) div 4)"

definition make_chunk :: "nat \<Rightarrow> file_info list \<Rightarrow> int \<Rightarrow> ProcessingChunk" where
  "make_chunk n current_chunk current_tokens =
     \<lparr>chunk_id = ''chunk_'' @ str_nat n, files = current_chunk,
      estimated_tokens = current_tokens,
      priority = calculate_chunk_priority current_chunk\<rparr>"

text \<open>
  The \<^verbatim>\<open>for file_info in sorted_files\<close> loop of \<^verbatim>\<open>split_project_into_chunks\<close>, with its four
  local variables \<^verbatim>\<open>chunks\<close>, \<^verbatim>\<open>current_chunk\<close>, \<^verbatim>\<open>current_tokens\<close> and \<^verbatim>\<open>chunk_id\<close> as
  arguments; it returns them as they are when the loop ends.
\<close>

fun split_loop ::
  "ChunkConfig \<Rightarrow> file_info list \<Rightarrow> ProcessingChunk list \<Rightarrow> file_info list \<Rightarrow> int \<Rightarrow> nat
   \<Rightarrow> ProcessingChunk list \<times> file_info list \<times> int \<times> nat" where
  "split_loop cfg [] chunks current_chunk current_tokens n =
     (chunks, current_chunk, current_tokens, n)"
| "split_loop cfg (file_info # rest) chunks current_chunk current_tokens n =
     (let file_tokens = estimate_tokens file_info
      in if int (length current_chunk) \<ge> max_files_per_chunk cfg
            \<or> current_tokens + file_tokens > max_tokens_per_chunk cfg
         then (if current_chunk \<noteq> []
               then split_loop cfg rest (chunks @ [make_chunk n current_chunk current_tokens])
                      [file_info] file_tokens (n + 1)
               else split_loop cfg rest chunks [file_info] file_tokens n)
         else split_loop cfg rest chunks (current_chunk @ [file_info])
                (current_tokens + file_tokens) n)"

definition split_project_into_chunks ::
  "ChunkConfig \<Rightarrow> file_info list \<Rightarrow> ProcessingChunk list" where
  "split_project_into_chunks cfg project_files =
     (let sorted_files = sorted_reverse get_file_priority project_files;
          (chunks, current_chunk, current_tokens, n) = split_loop cfg sorted_files [] [] 0 0;
          chunks' = (if current_chunk \<noteq> []
                     then chunks @ [make_chunk n current_chunk current_tokens] else chunks)
      in sorted_reverse priority chunks')"

section \<open>The file chunker\<close>

text \<open>
  The dictionaries that \<^verbatim>\<open>FileChunker.split_large_file\<close> builds and
  \<^verbatim>\<open>FileChunker.merge_file_chunks\<close> reads, with the keys \<^verbatim>\<open>file_path\<close>, \<^verbatim>\<open>content\<close>,
  \<^verbatim>\<open>chunk_index\<close> and \<^verbatim>\<open>original_file\<close>.
\<close>

record file_chunk =
  fc_file_path :: "string option"
  fc_content :: "string option"
  fc_chunk_index :: "int option"
  fc_original_file :: "string option"

text \<open>\<^verbatim>\<open>content.split('\n')\<close> and \<^verbatim>\<open>'\n'.join(parts)\<close>.\<close>

definition newline :: char where
  "newline = CHR 0x0A"

primrec split_nl :: "string \<Rightarrow> string list" where
  "split_nl [] = [[]]"
| "split_nl (c # cs) =
     (if c = newline then [] # split_nl cs
      else (c # hd (split_nl cs)) # tl (split_nl cs))"

fun join_nl :: "string list \<Rightarrow> string" where
  "join_nl [] = []"
| "join_nl [x] = x"
| "join_nl (x # y # ys) = x @ newline # join_nl (y # ys)"

text \<open>The dictionary appended for one part, and the \<^verbatim>\<open>for line in lines\<close> loop.\<close>

definition make_part :: "string \<Rightarrow> nat \<Rightarrow> string list \<Rightarrow> file_chunk" where
  "make_part path idx current_chunk =
     \<lparr>fc_file_path = Some (path @ ''.part'' @ str_nat idx),
      fc_content = Some (join_nl current_chunk),
      fc_chunk_index = Some (int idx),
      fc_original_file = Some path\<rparr>"

fun chunk_loop ::
  "int \<Rightarrow> string \<Rightarrow> string list \<Rightarrow> file_chunk list \<Rightarrow> string list \<Rightarrow> int \<Rightarrow> nat
   \<Rightarrow> file_chunk list \<times> string list \<times> int \<times> nat" where
  "chunk_loop max_chunk_size path [] chunks current_chunk current_size idx =
     (chunks, current_chunk, current_size, idx)"
| "chunk_loop max_chunk_size path (line # rest) chunks current_chunk current_size idx =
     (let line_size = int (length line) + 1
      in if current_size + line_size > max_chunk_size \<and> current_chunk \<noteq> []
         then chunk_loop max_chunk_size path rest
                (chunks @ [make_part path idx current_chunk]) [line] line_size (idx + 1)
         else chunk_loop max_chunk_size path rest chunks (current_chunk @ [line])
                (current_size + line_size) idx)"

definition split_large_file :: "int \<Rightarrow> string \<Rightarrow> string \<Rightarrow> file_chunk list" where
  "split_large_file max_chunk_size path text =
     (if int (length text) \<le> max_chunk_size
      then [\<lparr>fc_file_path = Some path, fc_content = Some text, fc_chunk_index = Some 0,
             fc_original_file = None\<rparr>]
      else (let (chunks, current_chunk, current_size, idx) =
                   chunk_loop max_chunk_size path (split_nl text) [] [] 0 0
            in if current_chunk \<noteq> [] then chunks @ [make_part path idx current_chunk]
               else chunks))"

definition merge_file_chunks :: "file_chunk list \<Rightarrow> string" where
  "merge_file_chunks chunks =
     (let sorted_chunks = sort_key (\<lambda>x. get_or (fc_chunk_index x) 0) chunks;
          content_parts = map (\<lambda>chunk. get_or (fc_content chunk) '''') sorted_chunks
      in join_nl content_parts)"

abbreviation contents :: "file_chunk list \<Rightarrow> string list" where
  "contents chunks \<equiv> map (\<lambda>chunk. get_or (fc_content chunk) '''') chunks"

abbreviation indices :: "file_chunk list \<Rightarrow> int list" where
  "indices chunks \<equiv> map (\<lambda>x. get_or (fc_chunk_index x) 0) chunks"

section \<open>The rate-limited scheduler\<close>

text \<open>
  The dictionary a processing callback returns, and the scheduler completes with
  \<^verbatim>\<open>chunk_id\<close> and \<^verbatim>\<open>attempt\<close>. Its payload keys \<^verbatim>\<open>file_analyses\<close>, \<^verbatim>\<open>patterns\<close> and
  \<^verbatim>\<open>dependencies\<close> are the ones \<^verbatim>\<open>merge_chunk_results\<close> reads: a map from file names to
  analyses, a list of patterns, a map from dependency kinds to lists of names, an analysis
  and a pattern being dictionaries of strings. A key can be absent (\<open>None\<close>), or present with
  the Python value \<^verbatim>\<open>None\<close> in place of the map or list (\<open>Some PyNone\<close>).
\<close>

type_synonym pydict = "(string \<times> string) list"

datatype 'a pyval = PyNone | Py 'a

datatype py_error = TypeError | AttributeError | ValueError

record chunk_result =
  cr_chunk_id :: "string option"
  cr_success :: "bool option"
  cr_error :: "string option"
  cr_attempt :: "int option"
  cr_file_analyses :: "(string \<times> pydict) list pyval option"
  cr_patterns :: "pydict list pyval option"
  cr_dependencies :: "(string \<times> string list) list pyval option"


datatype event = Invoke string | Sleep real

















text \<open>Observations on a trace: the invocations for a chunk, the sleeps, the events of a run.\<close>

definition invocations :: "string \<Rightarrow> event list \<Rightarrow> nat" where
  "invocations cid events = length (filter (\<lambda>e. e = Invoke cid) events)"

fun sleeps :: "event list \<Rightarrow> real list" where
  "sleeps [] = []"
| "sleeps (Sleep seconds # events) = seconds # sleeps events"
| "sleeps (Invoke cid # events) = sleeps events"



section \<open>The result merger\<close>

text \<open>
  The dictionary \<^verbatim>\<open>merge_chunk_results\<close> returns and its nested \<^verbatim>\<open>summary\<close>. A Python
  dictionary whose keys are data is an association list in insertion order, with one pair
  for each key.
\<close>

record merge_summary =
  total_files :: int
  successful_files :: int
  failed_files :: int
  summary_total_chunks :: int

record merged_result =
  status :: string
  file_analyses :: "(string \<times> pydict) list"
  patterns :: "pydict list"
  dependencies :: "(string \<times> string list) list"
  summary :: merge_summary

text \<open>
  \<^verbatim>\<open>d[k] = v\<close> (the value of a key that is there is replaced in place, a new key goes to
  the end), \<^verbatim>\<open>d.get(k)\<close> and \<^verbatim>\<open>d.update(other)\<close>.
\<close>

fun dict_set :: "('k \<times> 'v) list \<Rightarrow> 'k \<Rightarrow> 'v \<Rightarrow> ('k \<times> 'v) list" where
  "dict_set [] k v = [(k, v)]"
| "dict_set ((k', v') # d) k v =
     (if k' = k then (k', v) # d else (k', v') # dict_set d k v)"

definition dict_get :: "('k \<times> 'v) list \<Rightarrow> 'k \<Rightarrow> 'v option" where
  "dict_get d k = map_of d k"

definition dict_update :: "('k \<times> 'v) list \<Rightarrow> ('k \<times> 'v) list \<Rightarrow> ('k \<times> 'v) list" where
  "dict_update d other = fold (\<lambda>(k, v) acc. dict_set acc k v) other d"

text \<open>
  The body and the whole of the loop \<^verbatim>\<open>for dep_type, deps in chunk_deps.items()\<close>, and the
  count \<^verbatim>\<open>len([a for a in chunk_analyses.values() if a.get('status') == 'success'])\<close>.
\<close>

definition extend_dependency ::
  "(string \<times> string list) list \<Rightarrow> string \<Rightarrow> string list \<Rightarrow> (string \<times> string list) list" where
  "extend_dependency deps_map dep_type deps =
     (let deps_map' = (if dict_get deps_map dep_type = None
                       then dict_set deps_map dep_type [] else deps_map)
      in dict_set deps_map' dep_type (get_or (dict_get deps_map' dep_type) [] @ deps))"

definition merge_dependencies ::
  "(string \<times> string list) list \<Rightarrow> (string \<times> string list) list
   \<Rightarrow> (string \<times> string list) list" where
  "merge_dependencies deps_map chunk_deps =
     fold (\<lambda>(dep_type, deps) acc. extend_dependency acc dep_type deps) chunk_deps deps_map"

definition count_success :: "(string \<times> pydict) list \<Rightarrow> int" where
  "count_success chunk_analyses =
     int (length (filter (\<lambda>(name, a). dict_get a ''status'' = Some ''success'') chunk_analyses))"

text \<open>
  The body of the loop \<^verbatim>\<open>for chunk_result in chunk_results\<close>. A result that is not
  successful is skipped before its payload is read. \<^verbatim>\<open>dict.update(None)\<close> and
  \<^verbatim>\<open>list.extend(None)\<close> raise \<^verbatim>\<open>TypeError\<close>, \<^verbatim>\<open>None.items()\<close> raises \<^verbatim>\<open>AttributeError\<close>;
  nothing in \<^verbatim>\<open>merge_chunk_results\<close> catches them, so they end the call.
\<close>

definition merge_one :: "merged_result \<Rightarrow> chunk_result \<Rightarrow> py_error + merged_result" where
  "merge_one merged chunk_result =
     (if \<not> get_or (cr_success chunk_result) False then Inr merged
      else case get_or (cr_file_analyses chunk_result) (Py []) of
        PyNone \<Rightarrow> Inl TypeError
      | Py chunk_analyses \<Rightarrow>
          (case get_or (cr_patterns chunk_result) (Py []) of
             PyNone \<Rightarrow> Inl TypeError
           | Py chunk_patterns \<Rightarrow>
               (case get_or (cr_dependencies chunk_result) (Py []) of
                  PyNone \<Rightarrow> Inl AttributeError
                | Py chunk_deps \<Rightarrow>
                    Inr (merged
                      \<lparr>file_analyses := dict_update (file_analyses merged) chunk_analyses,
                       patterns := patterns merged @ chunk_patterns,
                       dependencies := merge_dependencies (dependencies merged) chunk_deps,
                       summary := (summary merged)
                         \<lparr>total_files := total_files (summary merged)
                                           + int (length chunk_analyses),
                          successful_files := successful_files (summary merged)
                                           + count_success chunk_analyses\<rparr>\<rparr>))))"

fun merge_loop :: "merged_result \<Rightarrow> chunk_result list \<Rightarrow> py_error + merged_result" where
  "merge_loop merged [] = Inr merged"
| "merge_loop merged (chunk_result # rest) =
     (case merge_one merged chunk_result of
        Inl e \<Rightarrow> Inl e
      | Inr merged' \<Rightarrow> merge_loop merged' rest)"

text \<open>\<^verbatim>\<open>_deduplicate_patterns\<close>, with its variables \<^verbatim>\<open>seen\<close> and \<^verbatim>\<open>unique_patterns\<close>.\<close>

fun dedup_loop :: "pydict list \<Rightarrow> string set \<Rightarrow> pydict list \<Rightarrow> pydict list" where
  "dedup_loop [] seen unique_patterns = unique_patterns"
| "dedup_loop (pattern # rest) seen unique_patterns =
     (let pattern_key = get_or (dict_get pattern ''name'') '''' @ '':''
                          @ get_or (dict_get pattern ''type'') ''''
      in if pattern_key \<notin> seen
         then dedup_loop rest (insert pattern_key seen) (unique_patterns @ [pattern])
         else dedup_loop rest seen unique_patterns)"

definition deduplicate_patterns :: "pydict list \<Rightarrow> pydict list" where
  "deduplicate_patterns ps = dedup_loop ps {} []"

text \<open>\<^verbatim>\<open>merge_chunk_results\<close>: the initial dictionary, the loop, the two final updates.\<close>

definition empty_merged :: "nat \<Rightarrow> merged_result" where
  "empty_merged n =
     \<lparr>status = ''success'', file_analyses = [], patterns = [], dependencies = [],
      summary = \<lparr>total_files = 0, successful_files = 0, failed_files = 0,
                 summary_total_chunks = int n\<rparr>\<rparr>"

definition merge_chunk_results :: "chunk_result list \<Rightarrow> py_error + merged_result" where
  "merge_chunk_results chunk_results =
     (case merge_loop (empty_merged (length chunk_results)) chunk_results of
        Inl e \<Rightarrow> Inl e
      | Inr merged \<Rightarrow>
          Inr (merged
            \<lparr>summary := (summary merged)
               \<lparr>failed_files := total_files (summary merged)
                                  - successful_files (summary merged)\<rparr>,
             patterns := deduplicate_patterns (patterns merged)\<rparr>))"


section \<open>Predicates and example inputs used in the proofs\<close>

subsection \<open>Invariant of the partition loop\<close>

text \<open>
  What the loop keeps true of \<^verbatim>\<open>current_chunk\<close> and \<^verbatim>\<open>current_tokens\<close>: the chunk under
  construction holds at most \<open>max 1 max_files_per_chunk\<close> files, its token count is the sum
  of its files' estimates, and it is within the token budget as soon as it holds two files.
\<close>

definition chunk_within :: "ChunkConfig \<Rightarrow> file_info list \<Rightarrow> int \<Rightarrow> bool" where
  "chunk_within cfg fs toks \<longleftrightarrow>
     int (length fs) \<le> max 1 (max_files_per_chunk cfg)
     \<and> toks = sum_list (map estimate_tokens fs)
     \<and> (1 < length fs \<longrightarrow> toks \<le> max_tokens_per_chunk cfg)"

definition chunk_ok :: "ChunkConfig \<Rightarrow> ProcessingChunk \<Rightarrow> bool" where
  "chunk_ok cfg c \<longleftrightarrow> files c \<noteq> [] \<and> chunk_within cfg (files c) (estimated_tokens c)"

subsection \<open>Predicates on chunk results\<close>

text \<open>
  A chunk result counts as successful when \<^verbatim>\<open>chunk_result.get('success', False)\<close> holds;
  \<open>analyses_of\<close> is the map it contributes to \<^verbatim>\<open>file_analyses\<close>; it is well shaped when none
  of its three payload keys holds \<^verbatim>\<open>None\<close>; \<open>fill_defaults\<close> stores the empty map or list
  under each payload key that is absent.
\<close>

definition succeeded :: "chunk_result \<Rightarrow> bool" where
  "succeeded r = get_or (cr_success r) False"

definition analyses_of :: "chunk_result \<Rightarrow> (string \<times> pydict) list" where
  "analyses_of r = (case get_or (cr_file_analyses r) (Py []) of PyNone \<Rightarrow> [] | Py d \<Rightarrow> d)"

definition well_shaped :: "chunk_result \<Rightarrow> bool" where
  "well_shaped r \<longleftrightarrow>
     cr_file_analyses r \<noteq> Some PyNone \<and> cr_patterns r \<noteq> Some PyNone
     \<and> cr_dependencies r \<noteq> Some PyNone"

abbreviation merged_chunks :: "chunk_result list \<Rightarrow> chunk_result list" where
  "merged_chunks rs \<equiv> filter succeeded rs"

definition fill_defaults :: "chunk_result \<Rightarrow> chunk_result" where
  "fill_defaults r =
     r\<lparr>cr_file_analyses := Some (get_or (cr_file_analyses r) (Py [])),
       cr_patterns := Some (get_or (cr_patterns r) (Py [])),
       cr_dependencies := Some (get_or (cr_dependencies r) (Py []))\<rparr>"


subsection \<open>Inputs of the worked examples\<close>

abbreviation (input) bare_item :: file_info where
  "bare_item \<equiv> \<lparr>file_path = None, file_type = None, content = None\<rparr>"

abbreviation (input) index_html :: file_info where
  "index_html \<equiv> \<lparr>file_path = Some ''INDEX.HTML'', file_type = None, content = Some ''123456789''\<rparr>"

abbreviation (input) a_css :: file_info where
  "a_css \<equiv> \<lparr>file_path = Some ''a.css'', file_type = None, content = Some ''12345678''\<rparr>"

abbreviation (input) small_config :: ChunkConfig where
  "small_config \<equiv>
     \<lparr>max_files_per_chunk = 2, max_tokens_per_chunk = 10, max_parallel_chunks = 3,
      rate_limit_delay = 2, retry_attempts = 3, retry_delay = 5\<rparr>"

abbreviation (input) zero_files_config :: ChunkConfig where
  "zero_files_config \<equiv>
     \<lparr>max_files_per_chunk = 0, max_tokens_per_chunk = 50000, max_parallel_chunks = 3,
      rate_limit_delay = 2, retry_attempts = 3, retry_delay = 5\<rparr>"











abbreviation (input) result_a :: chunk_result where
  "result_a \<equiv> \<lparr>cr_chunk_id = Some ''chunk_0'', cr_success = Some True, cr_error = None,
     cr_attempt = Some 1,
     cr_file_analyses = Some (Py [(''a.html'', [(''status'', ''success'')])]),
     cr_patterns = Some (Py [[(''name'', ''X''), (''type'', ''Y'')]]),
     cr_dependencies = Some (Py [(''css'', [''a.css''])])\<rparr>"

abbreviation (input) result_b :: chunk_result where
  "result_b \<equiv> \<lparr>cr_chunk_id = Some ''chunk_1'', cr_success = Some True, cr_error = None,
     cr_attempt = Some 1,
     cr_file_analyses = Some (Py [(''b.html'', [(''status'', ''error'')])]),
     cr_patterns = Some (Py [[(''name'', ''X''), (''type'', ''Y'')]]),
     cr_dependencies = Some (Py [(''css'', [''b.css'']), (''js'', [''b.js''])])\<rparr>"

abbreviation (input) result_no_analyses :: chunk_result where
  "result_no_analyses \<equiv> \<lparr>cr_chunk_id = Some ''chunk_2'', cr_success = Some True,
     cr_error = None, cr_attempt = Some 1, cr_file_analyses = None,
     cr_patterns = Some (Py [[(''name'', ''Z''), (''type'', ''Y'')]]),
     cr_dependencies = None\<rparr>"

abbreviation (input) result_none :: chunk_result where
  "result_none \<equiv> \<lparr>cr_chunk_id = Some ''chunk_3'', cr_success = Some True, cr_error = None,
     cr_attempt = Some 1, cr_file_analyses = Some PyNone, cr_patterns = None,
     cr_dependencies = None\<rparr>"

abbreviation (input) merged_a_twice :: merged_result where
  "merged_a_twice \<equiv>
     \<lparr>status = ''success'', file_analyses = [(''a.html'', [(''status'', ''success'')])],
      patterns = [[(''name'', ''X''), (''type'', ''Y'')]],
      dependencies = [(''css'', [''a.css'', ''a.css''])],
      summary = \<lparr>total_files = 2, successful_files = 2, failed_files = 0,
                 summary_total_chunks = 2\<rparr>\<rparr>"

abbreviation (input) merged_a_b :: merged_result where
  "merged_a_b \<equiv>
     \<lparr>status = ''success'',
      file_analyses = [(''a.html'', [(''status'', ''success'')]),
                       (''b.html'', [(''status'', ''error'')])],
      patterns = [[(''name'', ''X''), (''type'', ''Y'')]],
      dependencies = [(''css'', [''a.css'', ''b.css'']), (''js'', [''b.js''])],
      summary = \<lparr>total_files = 2, successful_files = 1, failed_files = 1,
                 summary_total_chunks = 2\<rparr>\<rparr>"

abbreviation (input) merged_a_no_analyses :: merged_result where
  "merged_a_no_analyses \<equiv>
     \<lparr>status = ''success'', file_analyses = [(''a.html'', [(''status'', ''success'')])],
      patterns = [[(''name'', ''X''), (''type'', ''Y'')], [(''name'', ''Z''), (''type'', ''Y'')]],
      dependencies = [(''css'', [''a.css''])],
      summary = \<lparr>total_files = 1, successful_files = 1, failed_files = 0,
                 summary_total_chunks = 2\<rparr>\<rparr>"


section \<open>Properties of the partitioner\<close>

lemma set_sorted_reverse: "set (sorted_reverse k xs) = set xs"
  by (simp add: sorted_reverse_def)

lemma mset_sorted_reverse: "mset (sorted_reverse k xs) = mset xs"
  by (simp add: sorted_reverse_def)

lemma sum_list_mset_cong:
  fixes g :: "'a \<Rightarrow> 'b multiset"
  assumes "mset xs = mset ys"
  shows "(\<Sum>x\<leftarrow>xs. g x) = (\<Sum>x\<leftarrow>ys. g x)"
proof -
  have "(\<Sum>x\<leftarrow>xs. g x) = sum_mset (image_mset g (mset xs))"
    by (metis mset_map sum_mset_sum_list)
  also have "\<dots> = sum_mset (image_mset g (mset ys))"
    using assms by simp
  also have "\<dots> = (\<Sum>x\<leftarrow>ys. g x)"
    by (metis mset_map sum_mset_sum_list)
  finally show ?thesis .
qed

lemma sum_list_files_sorted:
  "(\<Sum>c\<leftarrow>sorted_reverse k cs. mset (files c)) = (\<Sum>c\<leftarrow>cs. mset (files c))"
  by (rule sum_list_mset_cong) (rule mset_sorted_reverse)

text \<open>The loop moves files from the input into the chunks; it neither drops nor repeats one.\<close>

lemma split_loop_mset:
  "split_loop cfg fs chunks cur toks n = (chunks', cur', toks', n') \<Longrightarrow>
   mset (concat (map files chunks')) + mset cur'
     = mset (concat (map files chunks)) + mset cur + mset fs"
proof (induction cfg fs chunks cur toks n rule: split_loop.induct)
  case (1 cfg chunks current_chunk current_tokens n)
  then show ?case by simp
next
  case (2 cfg file_info rest chunks current_chunk current_tokens n)
  then show ?case
    by (auto simp: Let_def make_chunk_def split: if_splits)
qed

lemma split_project_files:
  "(\<Sum>c\<leftarrow>split_project_into_chunks cfg project_files. mset (files c)) = mset project_files"
proof -
  obtain chunks cur toks n where
    L: "split_loop cfg (sorted_reverse get_file_priority project_files) [] [] 0 0
          = (chunks, cur, toks, n)"
    by (metis prod_cases4)
  from split_loop_mset [OF L]
  have M: "mset (concat (map files chunks)) + mset cur = mset project_files"
    by (simp add: mset_sorted_reverse)
  have "(\<Sum>c\<leftarrow>split_project_into_chunks cfg project_files. mset (files c))
          = mset (concat (map files chunks)) + mset cur"
    by (auto simp: split_project_into_chunks_def L sum_list_files_sorted make_chunk_def
          mset_concat comp_def)
  with M show ?thesis by simp
qed

lemma chunk_ok_make_chunk:
  "cur \<noteq> [] \<Longrightarrow> chunk_within cfg cur toks \<Longrightarrow> chunk_ok cfg (make_chunk n cur toks)"
  by (simp add: chunk_ok_def make_chunk_def)

lemma split_loop_within:
  "split_loop cfg fs chunks cur toks n = (chunks', cur', toks', n') \<Longrightarrow>
   (\<forall>c\<in>set chunks. chunk_ok cfg c) \<Longrightarrow>
   chunk_within cfg cur toks \<Longrightarrow>
   (\<forall>c\<in>set chunks'. chunk_ok cfg c) \<and> chunk_within cfg cur' toks'"
proof (induction cfg fs chunks cur toks n rule: split_loop.induct)
  case (1 cfg chunks current_chunk current_tokens n)
  then show ?case by simp
next
  case (2 cfg file_info rest chunks current_chunk current_tokens n)
  let ?ft = "estimate_tokens file_info"
  have single: "chunk_within cfg [file_info] ?ft"
    by (simp add: chunk_within_def)
  show ?case
  proof (cases "int (length current_chunk) \<ge> max_files_per_chunk cfg
                \<or> current_tokens + ?ft > max_tokens_per_chunk cfg")
    case True
    show ?thesis
    proof (cases "current_chunk = []")
      case e: True
      with True 2 single show ?thesis by (simp add: Let_def)
    next
      case ne: False
      have "\<forall>c\<in>set (chunks @ [make_chunk n current_chunk current_tokens]). chunk_ok cfg c"
        using "2.prems" ne by (simp add: chunk_ok_make_chunk)
      with True ne 2 single show ?thesis by (simp add: Let_def)
    qed
  next
    case False
    have "chunk_within cfg (current_chunk @ [file_info]) (current_tokens + ?ft)"
      using False "2.prems"(3) by (auto simp: chunk_within_def)
    with False 2 show ?thesis by (simp add: Let_def)
  qed
qed

lemma chunks_ok:
  assumes "c \<in> set (split_project_into_chunks cfg project_files)"
  shows "chunk_ok cfg c"
proof -
  obtain chunks cur toks n where
    L: "split_loop cfg (sorted_reverse get_file_priority project_files) [] [] 0 0
          = (chunks, cur, toks, n)"
    by (metis prod_cases4)
  have "chunk_within cfg [] 0" by (simp add: chunk_within_def)
  with split_loop_within [OF L]
  have I: "\<forall>c\<in>set chunks. chunk_ok cfg c"
    and J: "chunk_within cfg cur toks" by simp_all
  from assms have "c \<in> set chunks \<or> (cur \<noteq> [] \<and> c = make_chunk n cur toks)"
    by (auto simp: split_project_into_chunks_def L set_sorted_reverse split: if_splits)
  with I J show ?thesis by (auto simp: chunk_ok_make_chunk)
qed

text \<open>Two runs of the partitioner, evaluated.\<close>

lemma split_small_example:
  "split_project_into_chunks small_config [a_css, bare_item, index_html]
   = [\<lparr>chunk_id = ''chunk_0'', files = [index_html, a_css], estimated_tokens = 4,
       priority = 90\<rparr>,
      \<lparr>chunk_id = ''chunk_1'', files = [bare_item], estimated_tokens = 1000, priority = 20\<rparr>]"
  by code_simp

lemma split_zero_files_example:
  "split_project_into_chunks zero_files_config [bare_item]
   = [\<lparr>chunk_id = ''chunk_0'', files = [bare_item], estimated_tokens = 1000, priority = 20\<rparr>]"
  by code_simp

text \<open>
  C2. For every input sequence of work items, the multiset union of the files of all chunks
  returned by \<^verbatim>\<open>split_project_into_chunks\<close> is the multiset of the input: no item is
  duplicated and none is dropped. An empty input gives an empty chunk list.
\<close>

theorem partition_complete:
  "(\<Sum>c\<leftarrow>split_project_into_chunks cfg project_files. mset (files c)) = mset project_files
   \<and> split_project_into_chunks cfg [] = []"
proof
  show "(\<Sum>c\<leftarrow>split_project_into_chunks cfg project_files. mset (files c))
          = mset project_files"
    by (rule split_project_files)
  show "split_project_into_chunks cfg [] = []"
    by (simp add: split_project_into_chunks_def sorted_reverse_def)
qed

theorem partition_complete_witness:
  "(\<Sum>c\<leftarrow>split_project_into_chunks small_config [a_css, bare_item, index_html].
      mset (files c)) = {#a_css, bare_item, index_html#}
   \<and> split_project_into_chunks small_config [] = []"
  using partition_complete [of small_config "[a_css, bare_item, index_html]"]
  by simp

text \<open>
  C3, as the claim states it, fails: the count bound \<^verbatim>\<open>len(files) <= max_files_per_chunk\<close>
  does not hold for every configuration. With \<^verbatim>\<open>max_files_per_chunk = 0\<close> the test
  \<^verbatim>\<open>len(current_chunk) >= max_files_per_chunk\<close> is true at every file, so every file starts a
  chunk of its own, and that chunk holds one file.
\<close>

theorem chunk_bounds_counterexample:
  "\<lparr>chunk_id = ''chunk_0'', files = [bare_item], estimated_tokens = 1000, priority = 20\<rparr>
     \<in> set (split_project_into_chunks zero_files_config [bare_item])
   \<and> \<not> int (length (files \<lparr>chunk_id = ''chunk_0'', files = [bare_item],
                           estimated_tokens = 1000, priority = 20\<rparr>))
         \<le> max_files_per_chunk zero_files_config"
  by (simp add: split_zero_files_example)

text \<open>
  C3, amended. Every chunk produced by \<^verbatim>\<open>split_project_into_chunks\<close> holds at most
  \<open>max 1 max_files_per_chunk\<close> files, which is \<^verbatim>\<open>max_files_per_chunk\<close> whenever that is at
  least one. Every chunk of more than one file has \<^verbatim>\<open>estimated_tokens\<close> within
  \<^verbatim>\<open>max_tokens_per_chunk\<close>; a chunk over the token budget is a singleton whose only file is
  over the budget by itself.
\<close>

theorem chunk_bounds:
  "\<forall>c\<in>set (split_project_into_chunks cfg project_files).
     int (length (files c)) \<le> max 1 (max_files_per_chunk cfg)
     \<and> (1 < length (files c) \<longrightarrow> estimated_tokens c \<le> max_tokens_per_chunk cfg)
     \<and> (max_tokens_per_chunk cfg < estimated_tokens c \<longrightarrow>
          (\<exists>f. files c = [f] \<and> max_tokens_per_chunk cfg < estimate_tokens f))"
proof
  fix c assume "c \<in> set (split_project_into_chunks cfg project_files)"
  then have "chunk_ok cfg c"
    by (rule chunks_ok)
  then have ne: "files c \<noteq> []" and W: "chunk_within cfg (files c) (estimated_tokens c)"
    by (simp_all add: chunk_ok_def)
  have "\<exists>f. files c = [f] \<and> max_tokens_per_chunk cfg < estimate_tokens f"
    if big: "max_tokens_per_chunk cfg < estimated_tokens c"
  proof -
    from W big have "length (files c) \<le> 1" by (auto simp: chunk_within_def)
    with ne obtain f where "files c = [f]"
      by (cases "files c") auto
    with W big show ?thesis by (auto simp: chunk_within_def)
  qed
  with W show "int (length (files c)) \<le> max 1 (max_files_per_chunk cfg)
     \<and> (1 < length (files c) \<longrightarrow> estimated_tokens c \<le> max_tokens_per_chunk cfg)
     \<and> (max_tokens_per_chunk cfg < estimated_tokens c \<longrightarrow>
          (\<exists>f. files c = [f] \<and> max_tokens_per_chunk cfg < estimate_tokens f))"
    by (auto simp: chunk_within_def)
qed

theorem chunk_bounds_witness:
  "set (split_project_into_chunks small_config [a_css, bare_item, index_html])
     = {\<lparr>chunk_id = ''chunk_0'', files = [index_html, a_css], estimated_tokens = 4,
          priority = 90\<rparr>,
        \<lparr>chunk_id = ''chunk_1'', files = [bare_item], estimated_tokens = 1000,
          priority = 20\<rparr>}
   \<and> 1 < length [index_html, a_css] \<and> (4::int) \<le> max_tokens_per_chunk small_config
   \<and> int (length [index_html, a_css]) \<le> max 1 (max_files_per_chunk small_config)
   \<and> max_tokens_per_chunk small_config < 1000
   \<and> max_tokens_per_chunk small_config < estimate_tokens bare_item"
  using chunk_bounds [of small_config "[a_css, bare_item, index_html]"]
  by (simp add: split_small_example)

lemma in_sum_list_mset:
  "x \<in># (\<Sum>y\<leftarrow>ys. g y) \<Longrightarrow> \<exists>y\<in>set ys. x \<in># g y"
  by (induction ys) auto

lemma file_in_some_chunk:
  assumes "f \<in> set project_files"
  shows "\<exists>c\<in>set (split_project_into_chunks cfg project_files). f \<in> set (files c)"
proof -
  from assms have "f \<in># (\<Sum>c\<leftarrow>split_project_into_chunks cfg project_files. mset (files c))"
    by (simp add: split_project_files)
  then show ?thesis
    by (auto dest: in_sum_list_mset)
qed

text \<open>
  C7, as the claim states it, fails: a work item with none of the keys \<^verbatim>\<open>file_path\<close>,
  \<^verbatim>\<open>file_type\<close> and \<^verbatim>\<open>content\<close> is not rejected. Every read of these keys is
  \<^verbatim>\<open>file_info.get(key, '')\<close>, so the call returns a chunk list, and the item is in it.
\<close>

theorem missing_fields_counterexample:
  "split_project_into_chunks default_config [bare_item]
   = [\<lparr>chunk_id = ''chunk_0'', files = [bare_item], estimated_tokens = 1000, priority = 20\<rparr>]"
  by code_simp

text \<open>
  C7, amended. \<^verbatim>\<open>split_project_into_chunks\<close> does not reject a work item that lacks
  \<^verbatim>\<open>file_path\<close>, \<^verbatim>\<open>file_type\<close> or \<^verbatim>\<open>content\<close>: an absent key is read as the empty string.
  The item's priority and token estimate are those of the item with the empty string stored
  under the absent keys (priority 20 when both \<^verbatim>\<open>file_path\<close> and \<^verbatim>\<open>file_type\<close> are absent,
  1000 tokens when \<^verbatim>\<open>content\<close> is absent), and the item is placed in one of the returned
  chunks.
\<close>

theorem missing_fields_defaulted:
  "f \<in> set project_files \<Longrightarrow>
   (\<exists>c\<in>set (split_project_into_chunks cfg project_files). f \<in> set (files c))
   \<and> get_file_priority f
       = get_file_priority (f\<lparr>file_path := Some (get_or (file_path f) ''''),
                              file_type := Some (get_or (file_type f) '''')\<rparr>)
   \<and> estimate_tokens f = estimate_tokens (f\<lparr>content := Some (get_or (content f) '''')\<rparr>)
   \<and> (file_path f = None \<and> file_type f = None \<longrightarrow> get_file_priority f = 20)
   \<and> (content f = None \<longrightarrow> estimate_tokens f = 1000)"
proof (intro conjI impI)
  assume "f \<in> set project_files"
  then show "\<exists>c\<in>set (split_project_into_chunks cfg project_files). f \<in> set (files c)"
    by (rule file_in_some_chunk)
next
  show "get_file_priority f
       = get_file_priority (f\<lparr>file_path := Some (get_or (file_path f) ''''),
                              file_type := Some (get_or (file_type f) '''')\<rparr>)"
    by (simp add: get_file_priority_def get_or_def)
next
  show "estimate_tokens f = estimate_tokens (f\<lparr>content := Some (get_or (content f) '''')\<rparr>)"
    by (simp add: estimate_tokens_def get_or_def)
next
  assume "file_path f = None \<and> file_type f = None"
  then show "get_file_priority f = 20"
    by (simp add: get_file_priority_def get_or_def endswith_def endswith_any_def lower_def)
next
  assume "content f = None"
  then show "estimate_tokens f = 1000"
    by (simp add: estimate_tokens_def get_or_def)
qed

theorem missing_fields_defaulted_witness:
  "bare_item \<in> set [a_css, bare_item]
   \<and> (\<exists>c\<in>set (split_project_into_chunks default_config [a_css, bare_item]).
         bare_item \<in> set (files c))
   \<and> get_file_priority bare_item = 20 \<and> estimate_tokens bare_item = 1000"
  using missing_fields_defaulted [of bare_item "[a_css, bare_item]" default_config]
  by simp

text \<open>
  C9, as the claim states it, fails: the estimate is not monotonic in the payload length, and
  the value given to an empty payload is not a floor. An empty payload is estimated at 1000
  tokens, a payload of four characters at one token.
\<close>

theorem estimate_tokens_counterexample:
  "length (get_or (content \<lparr>file_path = None, file_type = None, content = Some ''''\<rparr>) '''')
     \<le> length (get_or (content \<lparr>file_path = None, file_type = None, content = Some ''abcd''\<rparr>) '''')
   \<and> estimate_tokens \<lparr>file_path = None, file_type = None, content = Some ''''\<rparr> = 1000
   \<and> estimate_tokens \<lparr>file_path = None, file_type = None, content = Some ''abcd''\<rparr> = 1
   \<and> \<not> estimate_tokens \<lparr>file_path = None, file_type = None, content = Some ''''\<rparr>
         \<le> estimate_tokens \<lparr>file_path = None, file_type = None, content = Some ''abcd''\<rparr>"
  by (simp add: estimate_tokens_def get_or_def)

text \<open>
  C9, amended. The estimate of \<^verbatim>\<open>_estimate_tokens\<close> is a function of the payload alone. On
  non-empty payloads it is \<^verbatim>\<open>len(content) // 4\<close>, which is monotonic in the payload length:
  of two items with non-empty payloads, the one whose payload is not longer has the estimate
  that is not larger. An empty or absent payload is given the default estimate 1000, which
  is not a lower bound of the other estimates.
\<close>

theorem estimate_tokens_monotone:
  "(get_or (content a) '''' = get_or (content b) '''' \<longrightarrow> estimate_tokens a = estimate_tokens b)
   \<and> (get_or (content a) '''' \<noteq> []
        \<and> length (get_or (content a) '''') \<le> length (get_or (content b) '''')
      \<longrightarrow> estimate_tokens a \<le> estimate_tokens b)
   \<and> (get_or (content a) '''' \<noteq> []
      \<longrightarrow> estimate_tokens a = int (length (get_or (content a) '''')) div 4)
   \<and> (get_or (content a) '''' = [] \<longrightarrow> estimate_tokens a = 1000)"
  by (auto simp: estimate_tokens_def Let_def intro: zdiv_mono1)

theorem estimate_tokens_monotone_witness:
  "get_or (content a_css) '''' \<noteq> []
   \<and> length (get_or (content a_css) '''') \<le> length (get_or (content index_html) '''')
   \<and> estimate_tokens a_css \<le> estimate_tokens index_html
   \<and> estimate_tokens a_css = 2
   \<and> get_or (content bare_item) '''' = [] \<and> estimate_tokens bare_item = 1000
   \<and> get_or (content bare_item) '''' = get_or (content \<lparr>file_path = None, file_type = None, content = Some ''''\<rparr>) ''''"
  using estimate_tokens_monotone [of a_css index_html]
    estimate_tokens_monotone [of bare_item "\<lparr>file_path = None, file_type = None, content = Some ''''\<rparr>"]
  by (simp add: get_or_def)

section \<open>Properties of the file chunker\<close>

lemma split_nl_nonempty: "split_nl s \<noteq> []"
  by (induction s) auto

lemma join_nl_Cons: "ys \<noteq> [] \<Longrightarrow> join_nl (x # ys) = x @ newline # join_nl ys"
  by (cases ys) auto

lemma join_split_nl: "join_nl (split_nl s) = s"
proof (induction s)
  case Nil
  show ?case by simp
next
  case (Cons c cs)
  obtain l ls where S: "split_nl cs = l # ls"
    using split_nl_nonempty [of cs] by (cases "split_nl cs") auto
  show ?case
  proof (cases "c = newline")
    case True
    with Cons show ?thesis by (simp add: join_nl_Cons split_nl_nonempty)
  next
    case False
    with Cons S show ?thesis by (cases ls) auto
  qed
qed

lemma join_nl_append:
  "xs \<noteq> [] \<Longrightarrow> ys \<noteq> [] \<Longrightarrow> join_nl (xs @ ys) = join_nl xs @ newline # join_nl ys"
  by (induction xs rule: join_nl.induct) (auto simp: join_nl_Cons)

lemma join_nl_last_two:
  "join_nl (xs @ [u, v]) = join_nl (xs @ [u @ newline # v])"
proof (cases "xs = []")
  case True
  then show ?thesis by simp
next
  case False
  then show ?thesis
    using join_nl_append [of xs "[u, v]"] join_nl_append [of xs "[u @ newline # v]"]
    by simp
qed

lemma chunk_loop_join:
  "chunk_loop m path ls chunks cur csize idx = (chunks', cur', csize', idx') \<Longrightarrow>
   cur \<noteq> [] \<or> ls \<noteq> [] \<Longrightarrow>
   cur' \<noteq> [] \<and>
   join_nl (contents chunks' @ [join_nl cur']) = join_nl (contents chunks @ [join_nl (cur @ ls)])"
proof (induction m path ls chunks cur csize idx rule: chunk_loop.induct)
  case (1 m path chunks cur csize idx)
  then show ?case by simp
next
  case (2 m path line rest chunks cur csize idx)
  let ?ls = "int (length line) + 1"
  show ?case
  proof (cases "csize + ?ls > m \<and> cur \<noteq> []")
    case True
    with 2 have "cur' \<noteq> [] \<and> join_nl (contents chunks' @ [join_nl cur'])
       = join_nl (contents (chunks @ [make_part path idx cur]) @ [join_nl ([line] @ rest)])"
      by (simp add: Let_def)
    moreover have "join_nl (contents (chunks @ [make_part path idx cur]) @ [join_nl ([line] @ rest)])
       = join_nl (contents chunks @ [join_nl (cur @ line # rest)])"
      using True by (simp add: make_part_def get_or_def join_nl_last_two join_nl_append)
    ultimately show ?thesis by simp
  next
    case False
    with 2 show ?thesis by (simp add: Let_def)
  qed
qed

lemma chunk_loop_indices:
  "chunk_loop m path ls chunks cur csize idx = (chunks', cur', csize', idx') \<Longrightarrow>
   indices chunks' = indices chunks @ map int [idx..<idx']  \<and> idx \<le> idx'"
proof (induction m path ls chunks cur csize idx rule: chunk_loop.induct)
  case (1 m path chunks cur csize idx)
  then show ?case by simp
next
  case (2 m path line rest chunks cur csize idx)
  let ?ls = "int (length line) + 1"
  show ?case
  proof (cases "csize + ?ls > m \<and> cur \<noteq> []")
    case True
    with 2 have "indices chunks' = indices (chunks @ [make_part path idx cur]) @ map int [idx + 1..<idx']
       \<and> idx + 1 \<le> idx'"
      by (simp add: Let_def)
    then show ?thesis
      by (simp add: make_part_def get_or_def upt_conv_Cons)
  next
    case False
    with 2 show ?thesis by (simp add: Let_def)
  qed
qed

lemma sorted_map_int_upt: "sorted (map int [i..<j])"
  by (simp add: sorted_map strict_sorted_iff sorted_wrt_mono_rel[of _ "(<)"] )

text \<open>
  C10. For every file path, every content string and every \<^verbatim>\<open>max_chunk_size\<close>,
  \<^verbatim>\<open>merge_file_chunks(split_large_file(path, content))\<close> is \<^verbatim>\<open>content\<close>: when the content fits
  in one chunk, and when it is cut at line ends, also where single lines are longer than
  \<^verbatim>\<open>max_chunk_size\<close>.
\<close>

theorem split_merge_roundtrip:
  "merge_file_chunks (split_large_file max_chunk_size path text) = text"
proof (cases "int (length text) \<le> max_chunk_size")
  case True
  then show ?thesis
    by (simp add: split_large_file_def merge_file_chunks_def get_or_def)
next
  case False
  obtain chunks cur csize idx where
    L: "chunk_loop max_chunk_size path (split_nl text) [] [] 0 0 = (chunks, cur, csize, idx)"
    by (metis prod_cases4)
  from chunk_loop_join [OF L] have ne: "cur \<noteq> []"
    and J: "join_nl (contents chunks @ [join_nl cur]) = text"
    by (simp_all add: split_nl_nonempty join_split_nl)
  from chunk_loop_indices [OF L] have I: "indices chunks = map int [0..<idx]"
    by simp
  let ?all = "chunks @ [make_part path idx cur]"
  have S: "split_large_file max_chunk_size path text = ?all"
    using False ne by (simp add: split_large_file_def L)
  have "indices ?all = map int [0..<Suc idx]"
    using I by (simp add: make_part_def get_or_def)
  then have "sorted (indices ?all)"
    by (simp only: sorted_map_int_upt)
  then have "sort_key (\<lambda>x. get_or (fc_chunk_index x) 0) ?all = ?all"
    by (rule sort_key_id_if_sorted)
  then have "merge_file_chunks ?all = join_nl (contents ?all)"
    by (simp add: merge_file_chunks_def)
  also have "\<dots> = join_nl (contents chunks @ [join_nl cur])"
    by (simp add: make_part_def get_or_def)
  finally show ?thesis using S J by simp
qed


theorem split_merge_roundtrip_witness:
  "merge_file_chunks (split_large_file 5 ''p''
     (''abc'' @ [newline] @ ''defghijkl'' @ [newline, newline] @ ''x'' @ [newline]))
   = ''abc'' @ [newline] @ ''defghijkl'' @ [newline, newline] @ ''x'' @ [newline]
   \<and> map fc_content (split_large_file 5 ''p''
     (''abc'' @ [newline] @ ''defghijkl'' @ [newline, newline] @ ''x'' @ [newline]))
     = [Some ''abc'', Some ''defghijkl'', Some ([newline] @ ''x'' @ [newline])]"
  using split_merge_roundtrip [of 5 "''p''"
     "''abc'' @ [newline] @ ''defghijkl'' @ [newline, newline] @ ''x'' @ [newline]"]
  by (simp add: split_large_file_def make_part_def newline_def)

section \<open>Properties of the scheduler\<close>

lemma sleeps_append: "sleeps (xs @ ys) = sleeps xs @ sleeps ys"
  by (induction xs rule: sleeps.induct) auto

lemma invocations_append: "invocations cid (xs @ ys) = invocations cid xs + invocations cid ys"
  by (simp add: invocations_def)




















section \<open>Properties of the result merger\<close>

lemma dict_set_keys: "fst ` set (dict_set d k v) = insert k (fst ` set d)"
  by (induction d k v rule: dict_set.induct) auto

lemma dict_set_distinct: "distinct (map fst d) \<Longrightarrow> distinct (map fst (dict_set d k v))"
proof (induction d k v rule: dict_set.induct)
  case (1 k v)
  show ?case by simp
next
  case (2 k' v' d k v)
  then show ?case
    using dict_set_keys [of d k v] by (auto simp: image_iff)
qed

lemma dict_set_length: "length (dict_set d k v) \<le> Suc (length d)"
  by (induction d k v rule: dict_set.induct) auto

lemma dict_set_new: "k \<notin> fst ` set d \<Longrightarrow> dict_set d k v = d @ [(k, v)]"
  by (induction d k v rule: dict_set.induct) auto

lemma dict_update_distinct:
  "distinct (map fst d) \<Longrightarrow> distinct (map fst (dict_update d other))"
  unfolding dict_update_def
  by (induction other arbitrary: d) (auto simp: dict_set_distinct)

lemma dict_update_length: "length (dict_update d other) \<le> length d + length other"
  unfolding dict_update_def
proof (induction other arbitrary: d)
  case Nil
  show ?case by simp
next
  case (Cons p other)
  obtain k v where p: "p = (k, v)" by (cases p)
  have "length (fold (\<lambda>(k, v) acc. dict_set acc k v) other (dict_set d k v))
          \<le> length (dict_set d k v) + length other"
    by (rule Cons.IH)
  also have "\<dots> \<le> Suc (length d) + length other"
    using dict_set_length [of d k v] by simp
  finally show ?case by (simp add: p)
qed

lemma dict_update_new:
  "distinct (map fst d @ map fst other) \<Longrightarrow> dict_update d other = d @ other"
  unfolding dict_update_def
proof (induction other arbitrary: d)
  case Nil
  show ?case by simp
next
  case (Cons p other)
  obtain k v where p: "p = (k, v)" by (cases p)
  from Cons.prems have new: "k \<notin> fst ` set d"
    by (auto simp: p)
  from Cons.prems have "distinct (map fst (d @ [(k, v)]) @ map fst other)"
    by (auto simp: p)
  from Cons.IH [OF this] show ?case
    by (simp add: p dict_set_new [OF new])
qed

text \<open>What one step of the merge loop does to the map of analyses and to the counts.\<close>

lemma merge_one_skips: "\<not> succeeded r \<Longrightarrow> merge_one m r = Inr m"
  by (simp add: merge_one_def succeeded_def)

lemma merge_one_Inr:
  assumes "merge_one m r = Inr m'" and "succeeded r"
  shows "file_analyses m' = dict_update (file_analyses m) (analyses_of r)"
    and "total_files (summary m') = total_files (summary m) + int (length (analyses_of r))"
    and "successful_files (summary m')
           = successful_files (summary m) + count_success (analyses_of r)"
    and "summary_total_chunks (summary m') = summary_total_chunks (summary m)"
  using assms
  by (auto simp: merge_one_def succeeded_def analyses_of_def split: pyval.splits)

lemma merge_one_returns:
  "(\<exists>m'. merge_one m r = Inr m') \<longleftrightarrow> (succeeded r \<longrightarrow> well_shaped r)"
  by (cases "cr_file_analyses r"; cases "cr_patterns r"; cases "cr_dependencies r")
     (auto simp: merge_one_def succeeded_def well_shaped_def get_or_def split: pyval.splits)

lemma merge_loop_returns:
  "(\<exists>m'. merge_loop m rs = Inr m') \<longleftrightarrow> (\<forall>r\<in>set rs. succeeded r \<longrightarrow> well_shaped r)"
proof (induction rs arbitrary: m)
  case Nil
  show ?case by simp
next
  case (Cons r rs)
  show ?case
  proof (cases "merge_one m r")
    case (Inl e)
    with merge_one_returns [of m r] show ?thesis by auto
  next
    case (Inr m1)
    with merge_one_returns [of m r] Cons.IH [of m1] show ?thesis by auto
  qed
qed

lemma merge_loop_counts:
  "merge_loop m rs = Inr m' \<Longrightarrow>
   total_files (summary m')
     = total_files (summary m) + (\<Sum>r\<leftarrow>merged_chunks rs. int (length (analyses_of r)))
   \<and> successful_files (summary m')
     = successful_files (summary m) + (\<Sum>r\<leftarrow>merged_chunks rs. count_success (analyses_of r))
   \<and> summary_total_chunks (summary m') = summary_total_chunks (summary m)
   \<and> int (length (file_analyses m'))
       \<le> int (length (file_analyses m))
          + (\<Sum>r\<leftarrow>merged_chunks rs. int (length (analyses_of r)))
   \<and> (distinct (map fst (file_analyses m)) \<longrightarrow> distinct (map fst (file_analyses m')))"
proof (induction rs arbitrary: m)
  case Nil
  then show ?case by simp
next
  case (Cons r rs)
  from Cons.prems obtain m1 where one: "merge_one m r = Inr m1"
    and rest: "merge_loop m1 rs = Inr m'"
    by (auto split: sum.splits)
  note IH = Cons.IH [OF rest]
  show ?case
  proof (cases "succeeded r")
    case False
    with one have "m1 = m" by (simp add: merge_one_skips)
    with IH False show ?thesis by simp
  next
    case True
    note step = merge_one_Inr [OF one True]
    have "int (length (file_analyses m1))
            \<le> int (length (file_analyses m)) + int (length (analyses_of r))"
      using dict_update_length [of "file_analyses m" "analyses_of r"] by (simp add: step(1))
    moreover have "distinct (map fst (file_analyses m)) \<Longrightarrow> distinct (map fst (file_analyses m1))"
      by (simp add: step(1) dict_update_distinct)
    ultimately show ?thesis
      using IH True step(2,3,4) by auto
  qed
qed

lemma merge_loop_disjoint:
  "merge_loop m rs = Inr m' \<Longrightarrow>
   distinct (map fst (file_analyses m) @ concat (map (\<lambda>r. map fst (analyses_of r)) (merged_chunks rs))) \<Longrightarrow>
   file_analyses m' = file_analyses m @ concat (map analyses_of (merged_chunks rs))"
proof (induction rs arbitrary: m)
  case Nil
  then show ?case by simp
next
  case (Cons r rs)
  from Cons.prems(1) obtain m1 where one: "merge_one m r = Inr m1"
    and rest: "merge_loop m1 rs = Inr m'"
    by (auto split: sum.splits)
  show ?case
  proof (cases "succeeded r")
    case False
    with one have "m1 = m" by (simp add: merge_one_skips)
    with Cons.IH [OF rest] Cons.prems(2) False show ?thesis by simp
  next
    case True
    from Cons.prems(2) True
    have D: "distinct (map fst (file_analyses m) @ map fst (analyses_of r))"
      by auto
    have F: "file_analyses m1 = file_analyses m @ analyses_of r"
      using merge_one_Inr(1) [OF one True] dict_update_new [OF D] by simp
    from Cons.prems(2) True
    have "distinct (map fst (file_analyses m1)
            @ concat (map (\<lambda>r. map fst (analyses_of r)) (merged_chunks rs)))"
      by (simp add: F)
    from Cons.IH [OF rest this] True show ?thesis
      by (simp add: F)
  qed
qed

lemma length_concat_int: "int (length (concat xss)) = (\<Sum>xs\<leftarrow>xss. int (length xs))"
  by (induction xss) auto

lemmas merge_eval =
  merge_chunk_results_def empty_merged_def merge_one_def get_or_def dict_update_def
  merge_dependencies_def extend_dependency_def dict_get_def count_success_def
  deduplicate_patterns_def

lemma merge_a_twice: "merge_chunk_results [result_a, result_a] = Inr merged_a_twice"
  by (simp add: merge_eval)

lemma merge_a_b: "merge_chunk_results [result_a, result_b] = Inr merged_a_b"
  by (simp add: merge_eval)

lemma merge_a_no_analyses:
  "merge_chunk_results [result_a, result_no_analyses] = Inr merged_a_no_analyses"
  by (simp add: merge_eval)

lemma merge_a_none: "merge_chunk_results [result_a, result_none] = Inl TypeError"
  by (simp add: merge_eval)

text \<open>
  C6, as the claim states it, fails: the counts are not recomputed from the merged map.
  \<^verbatim>\<open>total_files\<close> and \<^verbatim>\<open>successful_files\<close> are added up chunk by chunk, so a key that two
  chunks report is counted twice while the merged map holds it once.
\<close>

theorem summary_counts_counterexample:
  "merge_chunk_results [result_a, result_a] = Inr merged_a_twice
   \<and> length (file_analyses merged_a_twice) = 1
   \<and> total_files (summary merged_a_twice) = 2
   \<and> successful_files (summary merged_a_twice) = 2"
  by (simp add: merge_a_twice)

text \<open>
  C6, amended. In the result of \<^verbatim>\<open>merge_chunk_results\<close>, \<^verbatim>\<open>total_files\<close> is the sum, over the
  successful chunk results, of the number of keys of each one's \<^verbatim>\<open>file_analyses\<close>, and
  \<^verbatim>\<open>successful_files\<close> the sum of each one's number of analyses with status
  \<^verbatim>\<open>'success'\<close>; \<^verbatim>\<open>failed_files\<close> is their difference and \<^verbatim>\<open>total_chunks\<close> the number of
  chunk results. The merged map has no more keys than \<^verbatim>\<open>total_files\<close>, and exactly that
  many when no key appears in more than one chunk's payload; a key that appears in several
  is counted once for each.
\<close>

theorem summary_counts:
  assumes "merge_chunk_results rs = Inr m"
  shows "total_files (summary m) = (\<Sum>r\<leftarrow>merged_chunks rs. int (length (analyses_of r)))
   \<and> successful_files (summary m) = (\<Sum>r\<leftarrow>merged_chunks rs. count_success (analyses_of r))
   \<and> failed_files (summary m) = total_files (summary m) - successful_files (summary m)
   \<and> summary_total_chunks (summary m) = int (length rs)
   \<and> distinct (map fst (file_analyses m))
   \<and> int (length (file_analyses m)) \<le> total_files (summary m)
   \<and> (distinct (concat (map (\<lambda>r. map fst (analyses_of r)) (merged_chunks rs)))
        \<longrightarrow> int (length (file_analyses m)) = total_files (summary m))"
proof -
  let ?m0 = "empty_merged (length rs)"
  from assms obtain m1 where L: "merge_loop ?m0 rs = Inr m1"
    and M: "m = m1\<lparr>summary := (summary m1)
               \<lparr>failed_files := total_files (summary m1) - successful_files (summary m1)\<rparr>,
             patterns := deduplicate_patterns (patterns m1)\<rparr>"
    by (auto simp: merge_chunk_results_def split: sum.splits)
  from merge_loop_counts [OF L]
  have T: "total_files (summary m1) = (\<Sum>r\<leftarrow>merged_chunks rs. int (length (analyses_of r)))"
    and S: "successful_files (summary m1)
              = (\<Sum>r\<leftarrow>merged_chunks rs. count_success (analyses_of r))"
    and C: "summary_total_chunks (summary m1) = int (length rs)"
    and B: "int (length (file_analyses m1))
              \<le> (\<Sum>r\<leftarrow>merged_chunks rs. int (length (analyses_of r)))"
    and D: "distinct (map fst (file_analyses m1))"
    by (simp_all add: empty_merged_def)
  have E: "int (length (file_analyses m1)) = total_files (summary m1)"
    if "distinct (concat (map (\<lambda>r. map fst (analyses_of r)) (merged_chunks rs)))"
  proof -
    from that have "file_analyses m1 = concat (map analyses_of (merged_chunks rs))"
      using merge_loop_disjoint [OF L] by (simp add: empty_merged_def)
    then show ?thesis
      by (simp add: T length_concat_int comp_def)
  qed
  from T S C B D E show ?thesis
    by (simp add: M)
qed

theorem summary_counts_witness:
  "merge_chunk_results [result_a, result_b] = Inr merged_a_b
   \<and> distinct (concat (map (\<lambda>r. map fst (analyses_of r)) (merged_chunks [result_a, result_b])))
   \<and> int (length (file_analyses merged_a_b)) = total_files (summary merged_a_b)
   \<and> total_files (summary merged_a_b) = 2
   \<and> successful_files (summary merged_a_b) = 1
   \<and> failed_files (summary merged_a_b) = 1"
  using summary_counts [OF merge_a_b]
  by (simp add: succeeded_def analyses_of_def get_or_def count_success_def dict_get_def
        merge_a_b)

text \<open>
  C8, as the claim states it, fails twice. A successful chunk result whose
  \<^verbatim>\<open>file_analyses\<close> is \<^verbatim>\<open>None\<close> ends the whole merge with \<^verbatim>\<open>TypeError\<close>, so the results of
  the other chunks are not returned; and a successful chunk result that lacks the key
  \<^verbatim>\<open>file_analyses\<close> is not skipped, its patterns are merged.
\<close>

theorem merge_malformed_counterexample:
  "merge_chunk_results [result_a, result_none] = Inl TypeError
   \<and> merge_chunk_results [result_a, result_no_analyses] = Inr merged_a_no_analyses
   \<and> [(''name'', ''Z''), (''type'', ''Y'')] \<in> set (patterns merged_a_no_analyses)"
  by (simp add: merge_a_none merge_a_no_analyses)

lemma merge_one_fill_defaults: "merge_one m (fill_defaults r) = merge_one m r"
  by (cases "cr_file_analyses r"; cases "cr_patterns r"; cases "cr_dependencies r")
     (auto simp: merge_one_def fill_defaults_def get_or_def split: pyval.splits)

lemma merge_loop_fill_defaults: "merge_loop m (map fill_defaults rs) = merge_loop m rs"
  by (induction rs arbitrary: m) (simp_all add: merge_one_fill_defaults split: sum.splits)

text \<open>
  C8, amended. \<^verbatim>\<open>merge_chunk_results\<close> handles no malformed payload. It returns a merged
  result exactly when, in every successful chunk result, each of \<^verbatim>\<open>file_analyses\<close>,
  \<^verbatim>\<open>patterns\<close> and \<^verbatim>\<open>dependencies\<close> is absent or has its shape; a successful chunk result
  with \<^verbatim>\<open>None\<close> under one of these keys makes the call raise. An absent key is read as the
  empty map or list and the rest of that chunk's payload is merged as usual. Chunk results
  that are not successful are skipped whatever their payload.
\<close>

theorem merge_malformed:
  "((\<exists>m. merge_chunk_results rs = Inr m) \<longleftrightarrow> (\<forall>r\<in>set rs. succeeded r \<longrightarrow> well_shaped r))
   \<and> merge_chunk_results (map fill_defaults rs) = merge_chunk_results rs"
proof
  have "(\<exists>m. merge_chunk_results rs = Inr m)
          \<longleftrightarrow> (\<exists>m1. merge_loop (empty_merged (length rs)) rs = Inr m1)"
    by (auto simp: merge_chunk_results_def split: sum.splits)
  then show "(\<exists>m. merge_chunk_results rs = Inr m)
               \<longleftrightarrow> (\<forall>r\<in>set rs. succeeded r \<longrightarrow> well_shaped r)"
    by (simp only: merge_loop_returns)
  show "merge_chunk_results (map fill_defaults rs) = merge_chunk_results rs"
    by (simp add: merge_chunk_results_def merge_loop_fill_defaults)
qed

theorem merge_malformed_witness:
  "succeeded result_a \<and> well_shaped result_a
   \<and> succeeded result_no_analyses \<and> well_shaped result_no_analyses
   \<and> (\<exists>m. merge_chunk_results [result_a, result_no_analyses] = Inr m)
   \<and> succeeded result_none \<and> \<not> well_shaped result_none
   \<and> (\<nexists>m. merge_chunk_results [result_a, result_none] = Inr m)
   \<and> merge_chunk_results (map fill_defaults [result_a, result_no_analyses])
       = merge_chunk_results [result_a, result_no_analyses]"
  using merge_malformed [of "[result_a, result_no_analyses]"]
    merge_malformed [of "[result_a, result_none]"]
  by (simp add: succeeded_def well_shaped_def get_or_def)

end
